theory Spec2Isabelle
  imports Complex_Main "HOL-Library.AList" "HOL-Library.Sublist" "HOL-Library.Log_Nat"
begin

section \<open>JavaScript values\<close>

text \<open>
  The server is TypeScript running on Node. Strings are modelled as lists of bytes
  (UTF-8), which agrees with JavaScript's own view for every operation used here:
  the patterns searched for (a dot, a newline, \<^verbatim>\<open>application/json\<close>) are ASCII.

  A JavaScript number is a double: a rational, or one of three special values.
\<close>

datatype jsnum = Finite rat | PosInfinity | NegInfinity | NaN

fun js_neg :: "jsnum \<Rightarrow> jsnum" where
  "js_neg (Finite q) = Finite (- q)"
| "js_neg PosInfinity = NegInfinity"
| "js_neg NegInfinity = PosInfinity"
| "js_neg NaN = NaN"

text \<open>
  A value decoded from JSON is a \<open>json\<close>. An object is the list of its own
  properties in the order JavaScript enumerates them: the keys that are array indices
  in ascending order, then the other keys in the order of their creation.
\<close>

datatype json =
    JNull
  | JBool bool
  | JNum jsnum
  | JStr string
  | JArr "json list"
  | JObj "(string \<times> json) list"

text \<open>Truthiness, as \<^verbatim>\<open>if (v)\<close>, \<^verbatim>\<open>v || d\<close> and \<^verbatim>\<open>v ? a : b\<close> test it.\<close>

fun truthy :: "json \<Rightarrow> bool" where
  "truthy JNull = False"
| "truthy (JBool b) = b"
| "truthy (JNum n) = (n \<noteq> Finite 0 \<and> n \<noteq> NaN)"
| "truthy (JStr s) = (s \<noteq> [])"
| "truthy (JArr xs) = True"
| "truthy (JObj kvs) = True"

text \<open>
  \<^verbatim>\<open>JSON.stringify(v)\<close> for a value \<open>v\<close> of this kind, given as the JSON value
  its text denotes: a number that is not finite is written \<^verbatim>\<open>null\<close>, everything
  else is kept.
\<close>

fun JSON_stringify :: "json \<Rightarrow> json"
  and stringify_elements :: "json list \<Rightarrow> json list"
  and stringify_properties :: "(string \<times> json) list \<Rightarrow> (string \<times> json) list" where
  "JSON_stringify JNull = JNull"
| "JSON_stringify (JBool b) = JBool b"
| "JSON_stringify (JNum n) = (case n of Finite q \<Rightarrow> JNum (Finite q) | _ \<Rightarrow> JNull)"
| "JSON_stringify (JStr s) = JStr s"
| "JSON_stringify (JArr xs) = JArr (stringify_elements xs)"
| "JSON_stringify (JObj kvs) = JObj (stringify_properties kvs)"
| "stringify_elements [] = []"
| "stringify_elements (x # xs) = JSON_stringify x # stringify_elements xs"
| "stringify_properties [] = []"
| "stringify_properties ((k, v) # kvs) = (k, JSON_stringify v) # stringify_properties kvs"

datatype int_or_inf = Integer int | PlusInf | MinusInf

text \<open>ECMAScript's ToIntegerOrInfinity: NaN becomes 0, a finite number is truncated
  towards zero.\<close>

definition trunc :: "rat \<Rightarrow> int" where
  "trunc q = (if 0 \<le> q then \<lfloor>q\<rfloor> else \<lceil>q\<rceil>)"

fun ToIntegerOrInfinity :: "jsnum \<Rightarrow> int_or_inf" where
  "ToIntegerOrInfinity NaN = Integer 0"
| "ToIntegerOrInfinity PosInfinity = PlusInf"
| "ToIntegerOrInfinity NegInfinity = MinusInf"
| "ToIntegerOrInfinity (Finite q) = Integer (trunc q)"

text \<open>
  \<^verbatim>\<open>Array.prototype.slice(start, end)\<close>: a negative relative index counts from the
  end of the array, and both ends are clamped to the array.
\<close>

fun relative_index :: "nat \<Rightarrow> int_or_inf \<Rightarrow> nat" where
  "relative_index len MinusInf = 0"
| "relative_index len PlusInf = len"
| "relative_index len (Integer r) =
     (if r < 0 then nat (max (int len + r) 0) else min (nat r) len)"

definition slice :: "'a list \<Rightarrow> jsnum \<Rightarrow> jsnum option \<Rightarrow> 'a list" where
  "slice xs start end_arg =
     (let len = length xs;
          k = relative_index len (ToIntegerOrInfinity start);
          final = (case end_arg of
                     None \<Rightarrow> len
                   | Some e \<Rightarrow> relative_index len (ToIntegerOrInfinity e))
      in take (final - k) (drop k xs))"

section \<open>Arithmetic on doubles\<close>

text \<open>
  The result of \<open>*\<close> and \<open>-\<close> on finite doubles is the exact result rounded to
  the nearest double, ties to the even significand. \<open>binade q\<close> is the exponent
  of the power of \<open>2\<close> at or next below \<open>|q|\<close>; a double has 53 significant bits and its
  exponent is at least \<open>-1022\<close>, so that the doubles next to \<open>q\<close> are the multiples
  of \<open>quantum q\<close>, which is \<open>2\<close> to the power \<open>max e (-1022) - 52\<close>. A rounded
  result of magnitude \<open>2\<close> to the power 1024 or more is an infinity. The sign of a
  zero is not modelled.
\<close>

definition binade :: "rat \<Rightarrow> int" where
  "binade q =
     (if 1 \<le> \<bar>q\<bar> then int (floorlog 2 (nat \<lfloor>\<bar>q\<bar>\<rfloor>)) - 1
      else - int (floorlog 2 (nat (\<lceil>1 / \<bar>q\<bar>\<rceil> - 1))))"

definition round_even :: "rat \<Rightarrow> int" where
  "round_even x =
     (let f = \<lfloor>x\<rfloor>; d = x - of_int f
      in if d < 1 / 2 then f
         else if 1 / 2 < d then f + 1
         else if even f then f else f + 1)"

definition quantum :: "rat \<Rightarrow> rat" where
  "quantum q = 2 powi (max (binade q) (- 1022) - 52)"

definition nearest :: "rat \<Rightarrow> rat" where
  "nearest q = of_int (round_even (q / quantum q)) * quantum q"

definition overflow_threshold :: rat where
  "overflow_threshold = 2 ^ 1024"

definition to_double :: "rat \<Rightarrow> jsnum" where
  "to_double q =
     (if q = 0 then Finite 0
      else if overflow_threshold \<le> \<bar>nearest q\<bar>
           then (if 0 < q then PosInfinity else NegInfinity)
           else Finite (nearest q))"

fun is_zero :: "jsnum \<Rightarrow> bool" where
  "is_zero (Finite q) = (q = 0)"
| "is_zero n = False"

fun is_negative :: "jsnum \<Rightarrow> bool" where
  "is_negative (Finite q) = (q < 0)"
| "is_negative NegInfinity = True"
| "is_negative n = False"

fun js_mul :: "jsnum \<Rightarrow> jsnum \<Rightarrow> jsnum" where
  "js_mul (Finite a) (Finite b) = to_double (a * b)"
| "js_mul NaN y = NaN"
| "js_mul x NaN = NaN"
| "js_mul x y =
     (if is_zero x \<or> is_zero y then NaN
      else if is_negative x = is_negative y then PosInfinity else NegInfinity)"

fun js_sub :: "jsnum \<Rightarrow> jsnum \<Rightarrow> jsnum" where
  "js_sub (Finite a) (Finite b) = to_double (a - b)"
| "js_sub NaN y = NaN"
| "js_sub x NaN = NaN"
| "js_sub PosInfinity PosInfinity = NaN"
| "js_sub NegInfinity NegInfinity = NaN"
| "js_sub PosInfinity y = PosInfinity"
| "js_sub NegInfinity y = NegInfinity"
| "js_sub x PosInfinity = NegInfinity"
| "js_sub x NegInfinity = PosInfinity"

section \<open>Strings\<close>

definition startsWith :: "string \<Rightarrow> string \<Rightarrow> bool" where
  "startsWith s p = prefix p s"

text \<open>\<^verbatim>\<open>s.includes(p)\<close>: \<open>p\<close> starts at some position of \<open>s\<close>.\<close>

fun includes_str :: "string \<Rightarrow> string \<Rightarrow> bool" where
  "includes_str [] p = (p = [])"
| "includes_str (c # cs) p = (prefix p (c # cs) \<or> includes_str cs p)"

text \<open>\<^verbatim>\<open>xs.join(sep)\<close> on an array of strings.\<close>

fun join :: "string \<Rightarrow> string list \<Rightarrow> string" where
  "join sep [] = []"
| "join sep [x] = x"
| "join sep (x # y # ys) = x @ sep @ join sep (y # ys)"

definition newline :: string where
  "newline = [CHR 0x0A]"

text \<open>\<^verbatim>\<open>s.split("\n")\<close>: the empty string splits into one empty line.\<close>

fun split_lines :: "string \<Rightarrow> string list" where
  "split_lines [] = [[]]"
| "split_lines (c # cs) =
     (if c = CHR 0x0A then [] # split_lines cs
      else (case split_lines cs of
              [] \<Rightarrow> [[c]]
            | l # ls \<Rightarrow> (c # l) # ls))"

text \<open>A non-negative integer in a template literal: its decimal digits.\<close>

fun show_nat :: "nat \<Rightarrow> string" where
  "show_nat n =
     (if n < 10 then [''0123456789'' ! n]
      else show_nat (n div 10) @ [''0123456789'' ! (n mod 10)])"

declare show_nat.simps [simp del]

text \<open>
  String coercion in a template literal. How a finite number prints
  (\<^verbatim>\<open>Number.prototype.toString\<close>) is a parameter.
\<close>

fun jsnum_string :: "(rat \<Rightarrow> string) \<Rightarrow> jsnum \<Rightarrow> string" where
  "jsnum_string ns (Finite q) = ns q"
| "jsnum_string ns PosInfinity = ''Infinity''"
| "jsnum_string ns NegInfinity = ''-Infinity''"
| "jsnum_string ns NaN = ''NaN''"

fun js_string :: "(rat \<Rightarrow> string) \<Rightarrow> json \<Rightarrow> string"
  and js_strings :: "(rat \<Rightarrow> string) \<Rightarrow> json list \<Rightarrow> string list" where
  "js_string ns JNull = ''null''"
| "js_string ns (JBool b) = (if b then ''true'' else ''false'')"
| "js_string ns (JNum n) = jsnum_string ns n"
| "js_string ns (JStr s) = s"
| "js_string ns (JArr xs) = join '','' (js_strings ns xs)"
| "js_string ns (JObj kvs) = ''[object Object]''"
| "js_strings ns [] = []"
| "js_strings ns (x # xs) =
     (case x of JNull \<Rightarrow> [] | _ \<Rightarrow> js_string ns x) # js_strings ns xs"

section \<open>Objects\<close>

text \<open>
  A key is an array index when it is the canonical decimal form of a number up to
  4294967294.
\<close>

definition is_digit :: "char \<Rightarrow> bool" where
  "is_digit c = (48 \<le> (of_char c :: nat) \<and> (of_char c :: nat) \<le> 57)"

definition decimal :: "string \<Rightarrow> nat" where
  "decimal k = foldl (\<lambda>a c. 10 * a + (of_char c - 48)) 0 k"

definition array_index :: "string \<Rightarrow> nat option" where
  "array_index k =
     (case k of
        [] \<Rightarrow> None
      | c # cs \<Rightarrow>
          if list_all is_digit k \<and> (c \<noteq> CHR ''0'' \<or> cs = []) \<and> decimal k \<le> 4294967294
          then Some (decimal k) else None)"

text \<open>A new array-index key goes before the first key that is a greater index or
  no index at all.\<close>

fun insert_index :: "nat \<Rightarrow> string \<Rightarrow> json \<Rightarrow> (string \<times> json) list \<Rightarrow> (string \<times> json) list" where
  "insert_index i k v [] = [(k, v)]"
| "insert_index i k v ((k', v') # rest) =
     (case array_index k' of
        None \<Rightarrow> (k, v) # (k', v') # rest
      | Some j \<Rightarrow>
          if j < i then (k', v') # insert_index i k v rest
          else (k, v) # (k', v') # rest)"

text \<open>
  Creating or overwriting an own property \<open>k\<close> of an object: an existing key keeps
  its place, a new array index is put in its numeric place, and any other new key
  goes last.
\<close>

definition define_property ::
  "string \<Rightarrow> json \<Rightarrow> (string \<times> json) list \<Rightarrow> (string \<times> json) list" where
  "define_property k v obj =
     (if k \<in> fst ` set obj then AList.update k v obj
      else case array_index k of
             None \<Rightarrow> obj @ [(k, v)]
           | Some i \<Rightarrow> insert_index i k v obj)"

text \<open>
  The assignment \<^verbatim>\<open>obj[k] = v\<close> on an object whose prototype is
  \<^verbatim>\<open>Object.prototype\<close>, as the literal \<^verbatim>\<open>{}\<close> is. The prototype's
  properties are writable data properties, which an assignment shadows with an own
  property, but for the accessor \<^verbatim>\<open>__proto__\<close>: assigning to that key runs the
  inherited setter, which creates no own property.
\<close>

definition assign_property ::
  "string \<Rightarrow> json \<Rightarrow> (string \<times> json) list \<Rightarrow> (string \<times> json) list" where
  "assign_property k v obj = (if k = ''__proto__'' then obj else define_property k v obj)"

section \<open>The HTTP client (ha-client.ts)\<close>

text \<open>
  \<^verbatim>\<open>fetch\<close> is the only effect. The upstream is a function from the request
  sent to what comes back: a rejection (network failure, or the abort the timer
  triggers after \<open>req_timeout\<close> milliseconds), or a response. A response records
  what \<^verbatim>\<open>response.text()\<close> and \<^verbatim>\<open>response.json()\<close> resolve to, \<open>None\<close> when
  they reject. A function of this file returns the list of requests it sent together
  with its outcome, an error (\<open>Inl\<close>) standing for a thrown exception.
\<close>

record http_request =
  req_url :: string
  req_method :: string
  req_headers :: "(string \<times> string) list"
  req_body :: "json option"
  req_timeout :: nat

record http_response =
  resp_status :: nat
  resp_content_type :: "string option"
  resp_text :: "string option"
  resp_json :: "json option"

datatype fetch_outcome = Rejected string | Response http_response

record env =
  SUPERVISOR_TOKEN :: "string option"
  fetch :: "http_request \<Rightarrow> fetch_outcome"

datatype error =
    FetchRejected string
  | Error string
  | BodyRejected
  | TypeError

datatype payload = Json json | Text string

type_synonym 'a io = "http_request list \<times> (error + 'a)"

record RequestOptions =
  opt_method :: "string option"
  opt_body :: "json option"
  opt_timeout :: "nat option"
  opt_rawResponse :: "bool option"

definition no_options :: RequestOptions where
  "no_options =
     \<lparr>opt_method = None, opt_body = None, opt_timeout = None, opt_rawResponse = None\<rparr>"

definition HA_API_BASE :: string where
  "HA_API_BASE = ''http://supervisor/core/api''"

definition SUPERVISOR_API_BASE :: string where
  "SUPERVISOR_API_BASE = ''http://supervisor''"

definition request_headers :: "env \<Rightarrow> (string \<times> string) list" where
  "request_headers e =
     [(''Authorization'',
       ''Bearer '' @ (case SUPERVISOR_TOKEN e of None \<Rightarrow> ''undefined'' | Some t \<Rightarrow> t)),
      (''Content-Type'', ''application/json'')]"

text \<open>\<^verbatim>\<open>body ? JSON.stringify(body) : undefined\<close>\<close>

definition sent_body :: "json option \<Rightarrow> json option" where
  "sent_body b =
     (case b of None \<Rightarrow> None | Some j \<Rightarrow> if truthy j then Some (JSON_stringify j) else None)"

text \<open>\<^verbatim>\<open>response.ok\<close>\<close>

definition resp_ok :: "http_response \<Rightarrow> bool" where
  "resp_ok r = (200 \<le> resp_status r \<and> resp_status r \<le> 299)"

text \<open>\<^verbatim>\<open>(response.headers.get("content-type") || "").includes("application/json")\<close>\<close>

definition declares_json :: "http_response \<Rightarrow> bool" where
  "declares_json r =
     includes_str (case resp_content_type r of None \<Rightarrow> [] | Some c \<Rightarrow> c) ''application/json''"

text \<open>\<^verbatim>\<open>await response.text().catch(() => "")\<close>\<close>

definition text_or_empty :: "http_response \<Rightarrow> string" where
  "text_or_empty r = (case resp_text r of None \<Rightarrow> [] | Some t \<Rightarrow> t)"

definition read_text :: "http_response \<Rightarrow> error + payload" where
  "read_text r = (case resp_text r of None \<Rightarrow> Inl BodyRejected | Some t \<Rightarrow> Inr (Text t))"

definition read_json :: "http_response \<Rightarrow> error + payload" where
  "read_json r = (case resp_json r of None \<Rightarrow> Inl BodyRejected | Some j \<Rightarrow> Inr (Json j))"

definition failure_message :: "string \<Rightarrow> string \<Rightarrow> string \<Rightarrow> nat \<Rightarrow> string \<Rightarrow> string" where
  "failure_message api method endpoint status body =
     api @ '' '' @ method @ '' '' @ endpoint @ '' failed ('' @ show_nat status @ ''): '' @ body"

text \<open>The defaults of the destructured options.\<close>

definition the_method :: "RequestOptions \<Rightarrow> string" where
  "the_method options = (case opt_method options of None \<Rightarrow> ''GET'' | Some m \<Rightarrow> m)"

definition the_timeout :: "RequestOptions \<Rightarrow> nat" where
  "the_timeout options = (case opt_timeout options of None \<Rightarrow> 30000 | Some t \<Rightarrow> t)"

definition the_rawResponse :: "RequestOptions \<Rightarrow> bool" where
  "the_rawResponse options = (case opt_rawResponse options of None \<Rightarrow> False | Some b \<Rightarrow> b)"

text \<open>The request \<^verbatim>\<open>fetch\<close> is called with.\<close>

definition build_request :: "string \<Rightarrow> env \<Rightarrow> string \<Rightarrow> RequestOptions \<Rightarrow> http_request" where
  "build_request base e endpoint options =
     \<lparr>req_url = base @ endpoint, req_method = the_method options,
      req_headers = request_headers e,
      req_body = sent_body (opt_body options), req_timeout = the_timeout options\<rparr>"

definition haApiRequest :: "env \<Rightarrow> string \<Rightarrow> RequestOptions \<Rightarrow> payload io" where
  "haApiRequest e endpoint options =
     (let req = build_request HA_API_BASE e endpoint options
      in ([req],
          (case fetch e req of
             Rejected why \<Rightarrow> Inl (FetchRejected why)
           | Response r \<Rightarrow>
               if \<not> resp_ok r then
                 Inl (Error (failure_message ''HA API'' (the_method options) endpoint
                        (resp_status r) (text_or_empty r)))
               else if declares_json r then read_json r
               else read_text r)))"

definition supervisorApiRequest :: "env \<Rightarrow> string \<Rightarrow> RequestOptions \<Rightarrow> payload io" where
  "supervisorApiRequest e endpoint options =
     (let req = build_request SUPERVISOR_API_BASE e endpoint options
      in ([req],
          (case fetch e req of
             Rejected why \<Rightarrow> Inl (FetchRejected why)
           | Response r \<Rightarrow>
               if \<not> resp_ok r then
                 Inl (Error (failure_message ''Supervisor API'' (the_method options) endpoint
                        (resp_status r) (text_or_empty r)))
               else if the_rawResponse options then read_text r
               else if declares_json r then read_json r
               else read_text r)))"

section \<open>Tool 8: ha_restart\<close>

definition restart_cancelled :: string where
  "restart_cancelled =
     ''Restart cancelled. Set confirm=true to proceed. Consider running `ha core check` first to validate configuration.''"

definition restart_initiated :: string where
  "restart_initiated =
     ''Home Assistant restart initiated. It will be unavailable briefly. Check logs after restart with ha_get_logs.''"

definition ha_restart :: "env \<Rightarrow> bool \<Rightarrow> string io" where
  "ha_restart e confirm =
     (if \<not> confirm then ([], Inr restart_cancelled)
      else
        (case haApiRequest e ''/services/homeassistant/restart''
                (no_options\<lparr>opt_method := Some ''POST''\<rparr>) of
           (calls, Inl err) \<Rightarrow> (calls, Inl err)
         | (calls, Inr result) \<Rightarrow> (calls, Inr restart_initiated)))"

section \<open>Tool 1: ha_get_entities\<close>

text \<open>
  The handler casts the decoded answer of \<^verbatim>\<open>/states\<close> to an array of
  \<^verbatim>\<open>{entity_id: string; state: string; attributes: Record<string, unknown>}\<close>.
  A payload that is not of this shape is outside the cast's type and is reported
  here as a \<open>TypeError\<close>.
\<close>

record entity =
  entity_id :: string
  state :: string
  attributes :: "(string \<times> json) list"

fun as_entity :: "json \<Rightarrow> entity option" where
  "as_entity (JObj kvs) =
     (case (map_of kvs ''entity_id'', map_of kvs ''state'', map_of kvs ''attributes'') of
        (Some (JStr i), Some (JStr s), Some (JObj a)) \<Rightarrow>
          Some \<lparr>entity_id = i, state = s, attributes = a\<rparr>
      | _ \<Rightarrow> None)"
| "as_entity _ = None"

fun as_states :: "payload \<Rightarrow> entity list option" where
  "as_states (Json (JArr xs)) = those (map as_entity xs)"
| "as_states _ = None"

text \<open>The em dash of the line format, in UTF-8.\<close>

definition em_dash :: string where
  "em_dash = [CHR 0xE2, CHR 0x80, CHR 0x94]"

text \<open>\<^verbatim>\<open>if (domain)\<close>: an omitted and an empty domain are both falsy.\<close>

fun domain_given :: "string option \<Rightarrow> bool" where
  "domain_given None = False"
| "domain_given (Some d) = (d \<noteq> [])"

definition entities_filtered :: "string option \<Rightarrow> entity list \<Rightarrow> entity list" where
  "entities_filtered domain states =
     (if domain_given domain
      then filter (\<lambda>s. startsWith (entity_id s) (the domain @ ''.'')) states
      else states)"

definition entities_limited :: "string option \<Rightarrow> jsnum \<Rightarrow> entity list \<Rightarrow> entity list" where
  "entities_limited domain limit states =
     slice (entities_filtered domain states) (Finite 0) (Some limit)"

definition entity_line :: "(rat \<Rightarrow> string) \<Rightarrow> entity \<Rightarrow> string" where
  "entity_line ns s =
     (let name = (case map_of (attributes s) ''friendly_name'' of
                    None \<Rightarrow> entity_id s
                  | Some v \<Rightarrow> if truthy v then js_string ns v else entity_id s)
      in entity_id s @ '' '' @ em_dash @ '' '' @ state s @ '' ('' @ name @ '')'')"

definition entities_header :: "string option \<Rightarrow> entity list \<Rightarrow> string" where
  "entities_header domain states =
     (if domain_given domain
      then ''Found '' @ show_nat (length (entities_filtered domain states)) @ '' ''
             @ the domain @ '' entities''
      else ''Found '' @ show_nat (length states) @ '' total entities'')"

definition entities_showing :: "string option \<Rightarrow> jsnum \<Rightarrow> entity list \<Rightarrow> string" where
  "entities_showing domain limit states =
     (if length (entities_limited domain limit states)
           < length (entities_filtered domain states)
      then '' (showing first '' @ show_nat (length (entities_limited domain limit states))
             @ '')''
      else [])"

definition entities_lines ::
  "(rat \<Rightarrow> string) \<Rightarrow> string option \<Rightarrow> jsnum \<Rightarrow> entity list \<Rightarrow> string list" where
  "entities_lines ns domain limit states =
     map (entity_line ns) (entities_limited domain limit states)"

definition entities_text ::
  "(rat \<Rightarrow> string) \<Rightarrow> string option \<Rightarrow> jsnum \<Rightarrow> entity list \<Rightarrow> string" where
  "entities_text ns domain limit states =
     entities_header domain states @ entities_showing domain limit states @ '':''
       @ newline @ newline @ join newline (entities_lines ns domain limit states)"

text \<open>The schema gives \<open>limit\<close> the default 200.\<close>

definition the_limit :: "jsnum option \<Rightarrow> jsnum" where
  "the_limit limit_arg = (case limit_arg of None \<Rightarrow> Finite 200 | Some n \<Rightarrow> n)"

definition ha_get_entities ::
  "env \<Rightarrow> (rat \<Rightarrow> string) \<Rightarrow> string option \<Rightarrow> jsnum option \<Rightarrow> string io" where
  "ha_get_entities e ns domain limit_arg =
     (let limit = the_limit limit_arg
      in case haApiRequest e ''/states'' no_options of
           (calls, Inl err) \<Rightarrow> (calls, Inl err)
         | (calls, Inr p) \<Rightarrow>
             (case as_states p of
                None \<Rightarrow> (calls, Inl TypeError)
              | Some states \<Rightarrow> (calls, Inr (entities_text ns domain limit states))))"

section \<open>Tool 3: ha_call_service\<close>

text \<open>
  A target field is a string or an array of strings. The body starts as the literal
  \<^verbatim>\<open>{}\<close> and is built by assignments; \<^verbatim>\<open>Object.assign\<close> assigns the
  source's own properties in their order.
\<close>

datatype target_value = One string | Many "string list"

fun target_json :: "target_value \<Rightarrow> json" where
  "target_json (One s) = JStr s"
| "target_json (Many xs) = JArr (map JStr xs)"

record target =
  tgt_entity_id :: "target_value option"
  tgt_area_id :: "target_value option"
  tgt_device_id :: "target_value option"

text \<open>\<^verbatim>\<open>if (target.k) body.k = target.k\<close>\<close>

definition assign_if_truthy ::
  "string \<Rightarrow> target_value option \<Rightarrow> (string \<times> json) list \<Rightarrow> (string \<times> json) list" where
  "assign_if_truthy k v body =
     (case v of
        None \<Rightarrow> body
      | Some x \<Rightarrow>
          if truthy (target_json x) then assign_property k (target_json x) body else body)"

definition object_assign ::
  "(string \<times> json) list \<Rightarrow> (string \<times> json) list \<Rightarrow> (string \<times> json) list" where
  "object_assign tgt src = fold (\<lambda>(k, v). assign_property k v) src tgt"

definition call_service_body ::
  "target option \<Rightarrow> (string \<times> json) list option \<Rightarrow> (string \<times> json) list" where
  "call_service_body tgt data =
     (let body0 = [];
          body1 = (case tgt of
                     None \<Rightarrow> body0
                   | Some t \<Rightarrow>
                       assign_if_truthy ''device_id'' (tgt_device_id t)
                         (assign_if_truthy ''area_id'' (tgt_area_id t)
                            (assign_if_truthy ''entity_id'' (tgt_entity_id t) body0)))
      in case data of None \<Rightarrow> body1 | Some d \<Rightarrow> object_assign body1 d)"

text \<open>\<^verbatim>\<open>Array.isArray(result) ? result.length : 0\<close>\<close>

fun changed_count :: "payload \<Rightarrow> nat" where
  "changed_count (Json (JArr xs)) = length xs"
| "changed_count _ = 0"

definition call_service_options :: "(string \<times> json) list \<Rightarrow> RequestOptions" where
  "call_service_options body =
     no_options\<lparr>opt_method := Some ''POST'',
                opt_body := (if length body > 0 then Some (JObj body) else None)\<rparr>"

definition ha_call_service ::
  "env \<Rightarrow> string \<Rightarrow> string \<Rightarrow> target option \<Rightarrow> (string \<times> json) list option \<Rightarrow> string io" where
  "ha_call_service e domain service tgt data =
     (let body = call_service_body tgt data
      in case haApiRequest e (''/services/'' @ domain @ ''/'' @ service)
                (call_service_options body) of
           (calls, Inl err) \<Rightarrow> (calls, Inl err)
         | (calls, Inr result) \<Rightarrow>
             (calls, Inr (''Service '' @ domain @ ''.'' @ service
                @ '' called successfully. '' @ show_nat (changed_count result)
                @ '' entity state(s) changed.'')))"

section \<open>Tool 9: ha_reload_config\<close>

definition RELOAD_MAP :: "(string \<times> string) list" where
  "RELOAD_MAP =
     [(''automation'', ''automation/reload''),
      (''script'', ''script/reload''),
      (''scene'', ''scene/reload''),
      (''group'', ''group/reload''),
      (''input_boolean'', ''input_boolean/reload''),
      (''input_number'', ''input_number/reload''),
      (''input_select'', ''input_select/reload''),
      (''input_datetime'', ''input_datetime/reload''),
      (''input_text'', ''input_text/reload''),
      (''input_button'', ''input_button/reload''),
      (''timer'', ''timer/reload''),
      (''counter'', ''counter/reload''),
      (''schedule'', ''schedule/reload''),
      (''zone'', ''zone/reload''),
      (''template'', ''template/reload''),
      (''person'', ''person/reload''),
      (''core'', ''homeassistant/reload_core_config'')]"

text \<open>
  \<^verbatim>\<open>RELOAD_MAP\<close> is an object literal, so \<^verbatim>\<open>RELOAD_MAP[domain]\<close> is a property
  read: it finds an own key, and otherwise whatever the object inherits from
  \<^verbatim>\<open>Object.prototype\<close>. The inherited properties are functions, and the accessor
  \<^verbatim>\<open>__proto__\<close> that yields the prototype object; each is listed with the string
  it becomes in a template literal.
\<close>

definition Object_prototype :: "(string \<times> string) list" where
  "Object_prototype =
     [(''constructor'', ''function Object() { [native code] }''),
      (''__defineGetter__'', ''function __defineGetter__() { [native code] }''),
      (''__defineSetter__'', ''function __defineSetter__() { [native code] }''),
      (''hasOwnProperty'', ''function hasOwnProperty() { [native code] }''),
      (''__lookupGetter__'', ''function __lookupGetter__() { [native code] }''),
      (''__lookupSetter__'', ''function __lookupSetter__() { [native code] }''),
      (''isPrototypeOf'', ''function isPrototypeOf() { [native code] }''),
      (''propertyIsEnumerable'', ''function propertyIsEnumerable() { [native code] }''),
      (''toString'', ''function toString() { [native code] }''),
      (''valueOf'', ''function valueOf() { [native code] }''),
      (''__proto__'', ''[object Object]''),
      (''toLocaleString'', ''function toLocaleString() { [native code] }'')]"

datatype property = Undefined | StringValue string | ObjectValue string

fun property_truthy :: "property \<Rightarrow> bool" where
  "property_truthy Undefined = False"
| "property_truthy (StringValue s) = (s \<noteq> [])"
| "property_truthy (ObjectValue s) = True"

fun property_string :: "property \<Rightarrow> string" where
  "property_string Undefined = ''undefined''"
| "property_string (StringValue s) = s"
| "property_string (ObjectValue s) = s"

definition get_property :: "(string \<times> string) list \<Rightarrow> string \<Rightarrow> property" where
  "get_property obj key =
     (case map_of obj key of
        Some s \<Rightarrow> StringValue s
      | None \<Rightarrow>
          (case map_of Object_prototype key of
             Some s \<Rightarrow> ObjectValue s
           | None \<Rightarrow> Undefined))"

definition unknown_domain :: "string \<Rightarrow> string" where
  "unknown_domain domain =
     ''Unknown domain '' @ [CHR 0x27] @ domain @ [CHR 0x27] @ ''. Supported: ''
       @ join '', '' (map fst RELOAD_MAP)"

definition reloaded :: "string \<Rightarrow> string" where
  "reloaded domain =
     ''Reloaded '' @ [CHR 0x27] @ domain @ [CHR 0x27] @ '' configuration successfully.''"

definition ha_reload_config :: "env \<Rightarrow> string \<Rightarrow> string io" where
  "ha_reload_config e domain =
     (let endpoint = get_property RELOAD_MAP domain
      in if \<not> property_truthy endpoint then ([], Inr (unknown_domain domain))
         else
           (case haApiRequest e (''/services/'' @ property_string endpoint)
                   (no_options\<lparr>opt_method := Some ''POST''\<rparr>) of
              (calls, Inl err) \<Rightarrow> (calls, Inl err)
            | (calls, Inr result) \<Rightarrow> (calls, Inr (reloaded domain))))"

section \<open>Tool 10: ha_get_logs\<close>

definition last_lines :: "jsnum \<Rightarrow> string \<Rightarrow> string list" where
  "last_lines lines logs = slice (split_lines logs) (js_neg lines) None"

definition logs_text :: "(rat \<Rightarrow> string) \<Rightarrow> jsnum \<Rightarrow> string \<Rightarrow> string" where
  "logs_text ns lines logs =
     ''Home Assistant logs (last '' @ jsnum_string ns lines @ '' lines):''
       @ newline @ newline @ join newline (last_lines lines logs)"

text \<open>The schema gives \<open>lines\<close> the default 100. With \<open>rawResponse\<close> the adapter
  only ever returns text.\<close>

definition the_lines :: "jsnum option \<Rightarrow> jsnum" where
  "the_lines lines_arg = (case lines_arg of None \<Rightarrow> Finite 100 | Some n \<Rightarrow> n)"

definition ha_get_logs :: "env \<Rightarrow> (rat \<Rightarrow> string) \<Rightarrow> jsnum option \<Rightarrow> string io" where
  "ha_get_logs e ns lines_arg =
     (let lines = the_lines lines_arg
      in case supervisorApiRequest e ''/core/logs''
                (no_options\<lparr>opt_rawResponse := Some True\<rparr>) of
           (calls, Inl err) \<Rightarrow> (calls, Inl err)
         | (calls, Inr (Text logs)) \<Rightarrow> (calls, Inr (logs_text ns lines logs))
         | (calls, Inr (Json j)) \<Rightarrow> (calls, Inl TypeError))"

section \<open>Tool 13: ha_render_template\<close>

text \<open>The result is cast to a string and put into a template literal, which
  coerces whatever the adapter returned.\<close>

fun payload_string :: "(rat \<Rightarrow> string) \<Rightarrow> payload \<Rightarrow> string" where
  "payload_string ns (Text s) = s"
| "payload_string ns (Json j) = js_string ns j"

definition template_options :: "string \<Rightarrow> RequestOptions" where
  "template_options template =
     no_options\<lparr>opt_method := Some ''POST'',
                opt_body := Some (JObj [(''template'', JStr template)])\<rparr>"

definition ha_render_template :: "env \<Rightarrow> (rat \<Rightarrow> string) \<Rightarrow> string \<Rightarrow> string io" where
  "ha_render_template e ns template =
     (case haApiRequest e ''/template'' (template_options template) of
        (calls, Inl err) \<Rightarrow> (calls, Inl err)
      | (calls, Inr result) \<Rightarrow>
          (calls, Inr (''Template result:'' @ newline @ newline @ payload_string ns result)))"

section \<open>Comparing a count with a JavaScript number\<close>

fun nonneg :: "jsnum \<Rightarrow> bool" where
  "nonneg (Finite q) = (0 \<le> q)"
| "nonneg PosInfinity = True"
| "nonneg NegInfinity = False"
| "nonneg NaN = False"

text \<open>\<open>at_most k n\<close> is \<open>k \<le> n\<close>, and \<open>exceeds k n\<close> is \<open>k > n\<close>; both are false
  of NaN.\<close>

fun at_most :: "nat \<Rightarrow> jsnum \<Rightarrow> bool" where
  "at_most k (Finite q) = (of_nat k \<le> q)"
| "at_most k PosInfinity = True"
| "at_most k NegInfinity = False"
| "at_most k NaN = False"

fun exceeds :: "nat \<Rightarrow> jsnum \<Rightarrow> bool" where
  "exceeds k (Finite q) = (q < of_nat k)"
| "exceeds k PosInfinity = False"
| "exceeds k NegInfinity = True"
| "exceeds k NaN = False"

section \<open>Concrete inputs\<close>

text \<open>An upstream that answers every request with the same response.\<close>

definition answering :: "http_response \<Rightarrow> env" where
  "answering r = \<lparr>SUPERVISOR_TOKEN = Some ''secret'', fetch = (\<lambda>req. Response r)\<rparr>"

text \<open>A number printer for inputs in which no number is printed.\<close>

definition no_digits :: "rat \<Rightarrow> string" where
  "no_digits q = []"

definition home_json :: json where
  "home_json =
     JArr [JObj [(''entity_id'', JStr ''light.kitchen''), (''state'', JStr ''on''),
                 (''attributes'', JObj [(''friendly_name'', JStr ''Kitchen'')])],
           JObj [(''entity_id'', JStr ''sensor.temp''), (''state'', JStr ''21.5''),
                 (''attributes'', JObj [])],
           JObj [(''entity_id'', JStr ''switch.fan''), (''state'', JStr ''off''),
                 (''attributes'', JObj [])]]"

definition home_states :: "entity list" where
  "home_states =
     [\<lparr>entity_id = ''light.kitchen'', state = ''on'',
       attributes = [(''friendly_name'', JStr ''Kitchen'')]\<rparr>,
      \<lparr>entity_id = ''sensor.temp'', state = ''21.5'', attributes = []\<rparr>,
      \<lparr>entity_id = ''switch.fan'', state = ''off'', attributes = []\<rparr>]"

definition home_response :: http_response where
  "home_response =
     \<lparr>resp_status = 200, resp_content_type = Some ''application/json'',
      resp_text = None, resp_json = Some home_json\<rparr>"

text \<open>Responses: a log as plain text, a rendered template, an empty JSON object,
  and a 404 whose body cannot be read.\<close>

definition log_response :: http_response where
  "log_response =
     \<lparr>resp_status = 200, resp_content_type = Some ''text/plain'',
      resp_text = Some (''first'' @ newline @ ''second'' @ newline @ ''third''),
      resp_json = None\<rparr>"

definition rendered_response :: http_response where
  "rendered_response =
     \<lparr>resp_status = 200, resp_content_type = Some ''text/plain; charset=utf-8'',
      resp_text = Some ''42'', resp_json = None\<rparr>"

definition json_response :: http_response where
  "json_response =
     \<lparr>resp_status = 200, resp_content_type = Some ''application/json'',
      resp_text = Some ''{}'', resp_json = Some (JObj [])\<rparr>"


text \<open>Service-call arguments: a target whose only field is the empty string, a target
  naming a light, and two data payloads.\<close>

definition empty_target :: target where
  "empty_target = \<lparr>tgt_entity_id = Some (One []), tgt_area_id = None, tgt_device_id = None\<rparr>"




section \<open>The fields of a target\<close>

text \<open>The three keys the handler copies from \<open>target\<close>, with their values, and the
  test the guard \<^verbatim>\<open>if (target.k)\<close> fails on: the field is absent or falsy.\<close>

definition target_fields :: "target \<Rightarrow> (string \<times> target_value option) list" where
  "target_fields t =
     [(''entity_id'', tgt_entity_id t), (''area_id'', tgt_area_id t),
      (''device_id'', tgt_device_id t)]"

fun falsy_field :: "target_value option \<Rightarrow> bool" where
  "falsy_field None = True"
| "falsy_field (Some v) = (\<not> truthy (target_json v))"

section \<open>Properties\<close>

subsection \<open>The adapter sends one request\<close>

lemma haApiRequest_calls:
  "fst (haApiRequest e endpoint options) = [build_request HA_API_BASE e endpoint options]"
  by (simp add: haApiRequest_def Let_def)

lemma supervisorApiRequest_calls:
  "fst (supervisorApiRequest e endpoint options) =
     [build_request SUPERVISOR_API_BASE e endpoint options]"
  by (simp add: supervisorApiRequest_def Let_def)



lemma includes_str_sublist: "includes_str s p \<longleftrightarrow> sublist p s"
  by (induction s) (auto simp: sublist_Cons_right)

lemma rendered_not_json: "\<not> declares_json rendered_response"
  by (simp add: declares_json_def rendered_response_def)





subsection \<open>ha_restart\<close>

text \<open>
  Claim C4. \<open>restart(confirm=false)\<close> sends nothing upstream and returns the
  cancellation text. \<open>restart(confirm=true)\<close> sends exactly one request, whatever
  the upstream then answers: a POST, without a body, to the restart service of the
  core API.
\<close>

theorem restart_calls:
  "ha_restart e False = ([], Inr restart_cancelled) \<and>
   fst (ha_restart e True) =
     [\<lparr>req_url = HA_API_BASE @ ''/services/homeassistant/restart'', req_method = ''POST'',
       req_headers = request_headers e, req_body = None, req_timeout = 30000\<rparr>]"
proof -
  let ?opts = "no_options\<lparr>opt_method := Some ''POST''\<rparr>"
  have "fst (ha_restart e True) = fst (haApiRequest e ''/services/homeassistant/restart'' ?opts)"
    by (cases "haApiRequest e ''/services/homeassistant/restart'' ?opts")
      (auto simp: ha_restart_def split: sum.splits)
  then show ?thesis
    by (simp add: haApiRequest_calls build_request_def no_options_def sent_body_def
        the_method_def the_timeout_def ha_restart_def)
qed

subsection \<open>ha_get_entities\<close>

lemma trunc_of_int: "trunc (of_int i) = i"
  by (simp add: trunc_def)

lemma trunc_minus_one: "trunc (- 1) = - 1"
  using trunc_of_int[of "- 1"] by simp

lemma slice_from_zero:
  "slice xs (Finite 0) (Some n) = take (relative_index (length xs) (ToIntegerOrInfinity n)) xs"
  by (simp add: slice_def trunc_def)

lemma relative_index_nonneg:
  "nonneg n \<Longrightarrow> at_most (relative_index len (ToIntegerOrInfinity n)) n"
proof (cases n)
  case (Finite q)
  assume "nonneg n"
  with Finite have q: "0 \<le> q" by simp
  then have "0 \<le> \<lfloor>q\<rfloor>" by simp
  have "(of_nat (min (nat \<lfloor>q\<rfloor>) len) :: rat) \<le> of_nat (nat \<lfloor>q\<rfloor>)"
    by simp
  also have "\<dots> = of_int \<lfloor>q\<rfloor>" using \<open>0 \<le> \<lfloor>q\<rfloor>\<close> by simp
  also have "\<dots> \<le> q" by (rule of_int_floor_le)
  finally show ?thesis using Finite q by (simp add: trunc_def)
qed simp_all

lemma relative_index_less:
  "nonneg n \<Longrightarrow> relative_index len (ToIntegerOrInfinity n) < len \<longleftrightarrow> exceeds len n"
proof (cases n)
  case (Finite q)
  assume "nonneg n"
  with Finite have q: "0 \<le> q" by simp
  then have fl: "0 \<le> \<lfloor>q\<rfloor>" by simp
  have "nat \<lfloor>q\<rfloor> < len \<longleftrightarrow> \<lfloor>q\<rfloor> < int len" using fl by linarith
  also have "\<dots> \<longleftrightarrow> q < of_int (int len)" by (rule floor_less_iff)
  finally show ?thesis using Finite q by (simp add: trunc_def min_less_iff_disj)
qed simp_all

lemma length_limited:
  "length (entities_limited domain n states) =
     relative_index (length (entities_filtered domain states)) (ToIntegerOrInfinity n)"
proof -
  have "relative_index len i \<le> len" for len i
    by (cases i) auto
  then show ?thesis
    by (simp add: entities_limited_def slice_from_zero min_absorb2)
qed

lemma limited_subset:
  "set (entities_limited domain n states) \<subseteq> set (entities_filtered domain states)"
  by (simp add: entities_limited_def slice_from_zero set_take_subset)

lemma starts_with_domain:
  assumes "startsWith i (d @ ''.'')" and "CHR ''.'' \<notin> set d"
  shows "takeWhile (\<lambda>c. c \<noteq> CHR ''.'') i = d"
proof -
  from assms(1) obtain rest where "i = (d @ ''.'') @ rest"
    by (auto simp: startsWith_def prefix_def)
  then have "i = d @ (CHR ''.'' # rest)" by simp
  moreover have "takeWhile (\<lambda>c. c \<noteq> CHR ''.'') (d @ (CHR ''.'' # rest)) = d"
    using assms(2) by (subst takeWhile_append2) auto
  ultimately show ?thesis by simp
qed

lemma get_entities_returns:
  assumes "snd (haApiRequest e ''/states'' no_options) = Inr p"
      and "as_states p = Some states"
  shows "snd (ha_get_entities e ns domain limit_arg) =
           Inr (entities_text ns domain (the_limit limit_arg) states)"
  using assms by (cases "haApiRequest e ''/states'' no_options")
    (simp add: ha_get_entities_def the_limit_def)

lemma home_answer:
  "snd (haApiRequest (answering home_response) ''/states'' no_options) = Inr (Json home_json)"
  by (simp add: haApiRequest_def answering_def home_response_def resp_ok_def
      declares_json_def read_json_def)

lemma home_decoded: "as_states (Json home_json) = Some home_states"
  by (simp add: home_json_def home_states_def)



text \<open>Filtering is by the prefix \<open>d.\<close>, so a domain that itself contains a dot
  keeps entities whose first segment is shorter than the domain.\<close>

lemma dotted_domain:
  "entities_filtered (Some ''a.b'') [\<lparr>entity_id = ''a.b.c'', state = ''on'', attributes = []\<rparr>]
     = [\<lparr>entity_id = ''a.b.c'', state = ''on'', attributes = []\<rparr>]
   \<and> takeWhile (\<lambda>c. c \<noteq> CHR ''.'') ''a.b.c'' = ''a''"
  by (simp add: entities_filtered_def startsWith_def)

text \<open>
  Claim C1, as amended. Let the upstream answer \<^verbatim>\<open>/states\<close> with the list
  \<open>states\<close>, and let \<open>d\<close> be a non-empty domain. Then the result is the header,
  the annotation and one line per returned entity, where the count in the header is
  the number of entities of \<open>states\<close> whose identifier starts with \<open>d.\<close> (the
  filtered count, not the length of \<open>states\<close>); every returned entity is one of
  \<open>states\<close> whose identifier starts with \<open>d.\<close>, so that its prefix up to the first
  dot is \<open>d\<close> when \<open>d\<close> has no dot. The header gives the length of the unfiltered
  list when no domain is given.
\<close>

theorem get_entities_domain:
  assumes "snd (haApiRequest e ''/states'' no_options) = Inr p"
      and "as_states p = Some states"
      and "d \<noteq> []"
  shows "snd (ha_get_entities e ns (Some d) limit_arg) =
           Inr (''Found ''
                  @ show_nat (length (filter (\<lambda>s. startsWith (entity_id s) (d @ ''.'')) states))
                  @ '' '' @ d @ '' entities''
                  @ entities_showing (Some d) (the_limit limit_arg) states @ '':''
                  @ newline @ newline
                  @ join newline
                      (map (entity_line ns)
                         (entities_limited (Some d) (the_limit limit_arg) states)))
       \<and> (\<forall>s \<in> set (entities_limited (Some d) (the_limit limit_arg) states).
             s \<in> set states \<and> startsWith (entity_id s) (d @ ''.'')
             \<and> (CHR ''.'' \<notin> set d \<longrightarrow> takeWhile (\<lambda>c. c \<noteq> CHR ''.'') (entity_id s) = d))
       \<and> entities_header None states = ''Found '' @ show_nat (length states) @ '' total entities''"
proof -
  let ?lim = "the_limit limit_arg"
  have flt: "entities_filtered (Some d) states =
               filter (\<lambda>s. startsWith (entity_id s) (d @ ''.'')) states"
    using assms(3) by (simp add: entities_filtered_def)
  have "snd (ha_get_entities e ns (Some d) limit_arg) =
          Inr (entities_text ns (Some d) ?lim states)"
    by (rule get_entities_returns[OF assms(1,2)])
  then have out: "snd (ha_get_entities e ns (Some d) limit_arg) =
           Inr (''Found ''
                  @ show_nat (length (filter (\<lambda>s. startsWith (entity_id s) (d @ ''.'')) states))
                  @ '' '' @ d @ '' entities''
                  @ entities_showing (Some d) ?lim states @ '':''
                  @ newline @ newline
                  @ join newline (map (entity_line ns) (entities_limited (Some d) ?lim states)))"
    using assms(3) by (simp add: entities_text_def entities_header_def entities_lines_def flt)
  have only: "s \<in> set states \<and> startsWith (entity_id s) (d @ ''.'')
        \<and> (CHR ''.'' \<notin> set d \<longrightarrow> takeWhile (\<lambda>c. c \<noteq> CHR ''.'') (entity_id s) = d)"
    if "s \<in> set (entities_limited (Some d) ?lim states)" for s
  proof -
    from that limited_subset have "s \<in> set (entities_filtered (Some d) states)" by blast
    then have "s \<in> set states" and "startsWith (entity_id s) (d @ ''.'')"
      by (simp_all add: flt)
    then show ?thesis by (simp add: starts_with_domain)
  qed
  have "entities_header None states = ''Found '' @ show_nat (length states) @ '' total entities''"
    by (simp add: entities_header_def)
  with out only show ?thesis by blast
qed


theorem get_entities_domain_witness:
  "''light'' \<noteq> []
   \<and> snd (ha_get_entities (answering home_response) no_digits (Some ''light'') None) =
       Inr (''Found 1 light entities:'' @ newline @ newline
            @ ''light.kitchen '' @ em_dash @ '' on (Kitchen)'')
   \<and> takeWhile (\<lambda>c. c \<noteq> CHR ''.'') ''light.kitchen'' = ''light''"
proof -
  have d: "''light'' \<noteq> []" by simp
  have lim: "entities_limited (Some ''light'') (the_limit None) home_states =
               [\<lparr>entity_id = ''light.kitchen'', state = ''on'',
                 attributes = [(''friendly_name'', JStr ''Kitchen'')]\<rparr>]"
    by (simp add: entities_limited_def entities_filtered_def slice_from_zero the_limit_def
        trunc_def home_states_def startsWith_def)
  have flt: "filter (\<lambda>s. startsWith (entity_id s) ''light.'') home_states =
               [\<lparr>entity_id = ''light.kitchen'', state = ''on'',
                 attributes = [(''friendly_name'', JStr ''Kitchen'')]\<rparr>]"
    by (simp add: home_states_def startsWith_def)
  have sh: "entities_showing (Some ''light'') (the_limit None) home_states = []"
    by (simp add: entities_showing_def lim entities_filtered_def flt)
  show ?thesis
    using get_entities_domain[OF home_answer home_decoded d, of no_digits None]
    by (simp add: lim flt sh entity_line_def show_nat.simps)
qed

text \<open>The claim as stated fails: of three entities one is a light, and the header
  of \<open>get_entities(domain="light")\<close> counts 1, not 3.\<close>

theorem get_entities_domain_counterexample:
  "snd (ha_get_entities (answering home_response) no_digits (Some ''light'') None) =
       Inr (''Found 1 light entities:'' @ newline @ newline
            @ ''light.kitchen '' @ em_dash @ '' on (Kitchen)'')
   \<and> as_states (Json home_json) = Some home_states
   \<and> length home_states = 3"
proof -
  have lim: "entities_limited (Some ''light'') (the_limit None) home_states =
               [\<lparr>entity_id = ''light.kitchen'', state = ''on'',
                 attributes = [(''friendly_name'', JStr ''Kitchen'')]\<rparr>]"
    by (simp add: entities_limited_def entities_filtered_def slice_from_zero the_limit_def
        trunc_def home_states_def startsWith_def)
  have "entities_text no_digits (Some ''light'') (the_limit None) home_states =
          ''Found 1 light entities:'' @ newline @ newline
            @ ''light.kitchen '' @ em_dash @ '' on (Kitchen)''"
    unfolding entities_text_def entities_lines_def entities_showing_def lim
    by (simp add: entities_header_def entities_filtered_def home_states_def startsWith_def
        entity_line_def show_nat.simps)
  then show ?thesis
    using get_entities_returns[OF home_answer home_decoded, of no_digits "Some ''light''" None]
    by (simp add: home_decoded home_states_def)
qed


text \<open>
  Claim C2, as amended. Let the upstream answer \<^verbatim>\<open>/states\<close> with \<open>states\<close>,
  and let the limit \<open>n\<close> be non-negative (a fraction and \<open>Infinity\<close> included).
  Then at most \<open>n\<close> lines are returned, and the annotation is present exactly when
  the filtered count exceeds \<open>n\<close>; it then names the number of lines shown.
\<close>

theorem get_entities_limit:
  assumes "snd (haApiRequest e ''/states'' no_options) = Inr p"
      and "as_states p = Some states"
      and "nonneg n"
  shows "snd (ha_get_entities e ns domain (Some n)) =
           Inr (entities_header domain states @ entities_showing domain n states @ '':''
                  @ newline @ newline @ join newline (entities_lines ns domain n states))
       \<and> at_most (length (entities_lines ns domain n states)) n
       \<and> (entities_showing domain n states =
             (if exceeds (length (entities_filtered domain states)) n
              then '' (showing first ''
                     @ show_nat (length (entities_lines ns domain n states)) @ '')''
              else []))"
proof -
  have "snd (ha_get_entities e ns domain (Some n)) = Inr (entities_text ns domain n states)"
    using get_entities_returns[OF assms(1,2), of ns domain "Some n"]
    by (simp add: the_limit_def)
  moreover have "at_most (length (entities_lines ns domain n states)) n"
    using relative_index_nonneg[OF assms(3)]
    by (simp add: entities_lines_def length_limited)
  moreover have "length (entities_limited domain n states)
                   < length (entities_filtered domain states)
                 \<longleftrightarrow> exceeds (length (entities_filtered domain states)) n"
    using relative_index_less[OF assms(3)] by (simp add: length_limited)
  ultimately show ?thesis
    by (simp add: entities_text_def entities_showing_def entities_lines_def)
qed


theorem get_entities_limit_witness:
  "nonneg (Finite 2)
   \<and> snd (ha_get_entities (answering home_response) no_digits None (Some (Finite 2))) =
       Inr (''Found 3 total entities (showing first 2):'' @ newline @ newline
            @ ''light.kitchen '' @ em_dash @ '' on (Kitchen)'' @ newline
            @ ''sensor.temp '' @ em_dash @ '' 21.5 (sensor.temp)'')
   \<and> length (entities_lines no_digits None (Finite 2) home_states) = 2"
proof -
  have n: "nonneg (Finite 2)" by simp
  have len: "length (entities_lines no_digits None (Finite 2) home_states) = 2"
    by (simp add: entities_lines_def entities_limited_def entities_filtered_def
        slice_from_zero trunc_def home_states_def)
  have hd: "entities_header None home_states = ''Found 3 total entities''"
    by (simp add: entities_header_def home_states_def show_nat.simps)
  have ex: "exceeds (length (entities_filtered None home_states)) (Finite 2)"
    by (simp add: entities_filtered_def home_states_def)
  have ls: "entities_lines no_digits None (Finite 2) home_states =
              [''light.kitchen '' @ em_dash @ '' on (Kitchen)'',
               ''sensor.temp '' @ em_dash @ '' 21.5 (sensor.temp)'']"
    by (simp add: entities_lines_def entities_limited_def entities_filtered_def
        slice_from_zero trunc_def home_states_def entity_line_def)
  show ?thesis
    using get_entities_limit[OF home_answer home_decoded n, of no_digits None] n len hd ex
    by (simp add: ls show_nat.simps)
qed

text \<open>The claim as stated fails for a negative limit: \<open>slice(0, -1)\<close> drops the
  last entity only, so two of three entities are returned for the limit \<open>-1\<close>.\<close>

theorem get_entities_limit_counterexample:
  "snd (ha_get_entities (answering home_response) no_digits None (Some (Finite (- 1)))) =
       Inr (''Found 3 total entities (showing first 2):'' @ newline @ newline
            @ ''light.kitchen '' @ em_dash @ '' on (Kitchen)'' @ newline
            @ ''sensor.temp '' @ em_dash @ '' 21.5 (sensor.temp)'')
   \<and> length (entities_lines no_digits None (Finite (- 1)) home_states) = 2
   \<and> \<not> at_most (length (entities_lines no_digits None (Finite (- 1)) home_states))
         (Finite (- 1))"
proof -
  have ls: "entities_lines no_digits None (Finite (- 1)) home_states =
              [''light.kitchen '' @ em_dash @ '' on (Kitchen)'',
               ''sensor.temp '' @ em_dash @ '' 21.5 (sensor.temp)'']"
    by (simp add: entities_lines_def entities_limited_def entities_filtered_def
        slice_from_zero trunc_minus_one home_states_def entity_line_def)
  have "snd (ha_get_entities (answering home_response) no_digits None (Some (Finite (- 1)))) =
          Inr (entities_text no_digits None (Finite (- 1)) home_states)"
    using get_entities_returns[OF home_answer home_decoded, of no_digits None "Some (Finite (- 1))"]
    by (simp add: the_limit_def)
  moreover have "entities_text no_digits None (Finite (- 1)) home_states =
       ''Found 3 total entities (showing first 2):'' @ newline @ newline
            @ ''light.kitchen '' @ em_dash @ '' on (Kitchen)'' @ newline
            @ ''sensor.temp '' @ em_dash @ '' 21.5 (sensor.temp)''"
    unfolding entities_text_def ls
    by (simp add: entities_header_def entities_showing_def entities_limited_def
        entities_filtered_def slice_from_zero trunc_minus_one home_states_def show_nat.simps)
  ultimately show ?thesis by (simp add: ls)
qed

subsection \<open>ha_call_service\<close>

lemma insert_index_set: "set (insert_index i k v obj) = insert (k, v) (set obj)"
  by (induction obj) (auto split: option.splits if_splits)

lemma insert_index_keys: "fst ` set (insert_index i k v obj) = insert k (fst ` set obj)"
  by (simp add: insert_index_set)

lemma insert_index_lookup:
  "k \<notin> fst ` set obj \<Longrightarrow> map_of (insert_index i k v obj) = (map_of obj)(k \<mapsto> v)"
proof (induction obj)
  case Nil
  show ?case by simp
next
  case (Cons p obj)
  obtain k' v' where p: "p = (k', v')" by (cases p)
  from Cons.prems p have ne: "k \<noteq> k'" and notin: "k \<notin> fst ` set obj" by auto
  have ih: "map_of (insert_index i k v obj) = (map_of obj)(k \<mapsto> v)"
    by (rule Cons.IH[OF notin])
  show ?case
    unfolding p using ne by (auto simp: ih fun_upd_twist split: option.splits)
qed

lemma define_property_keys:
  "fst ` set (define_property k v obj) = insert k (fst ` set obj)"
  by (auto simp: define_property_def dom_update insert_index_keys split: option.splits)

lemma define_property_lookup:
  "map_of (define_property k v obj) = (map_of obj)(k \<mapsto> v)"
proof (cases "k \<in> fst ` set obj")
  case True
  then show ?thesis by (simp add: define_property_def update_conv')
next
  case False
  then have "map_of obj k = None" by (simp add: map_of_eq_None_iff)
  then have "map_of (obj @ [(k, v)]) = (map_of obj)(k \<mapsto> v)"
    by (auto simp: map_add_def fun_eq_iff split: option.splits)
  then show ?thesis
    using False by (simp add: define_property_def insert_index_lookup split: option.splits)
qed

lemma assign_property_keys:
  "fst ` set (assign_property k v obj) =
     (if k = ''__proto__'' then fst ` set obj else insert k (fst ` set obj))"
  by (simp add: assign_property_def define_property_keys)

lemma assign_property_lookup:
  "k \<noteq> ''__proto__'' \<Longrightarrow> map_of (assign_property k v obj) = (map_of obj)(k \<mapsto> v)"
  by (simp add: assign_property_def define_property_lookup)


lemma object_assign_Cons:
  "object_assign b ((k, v) # d) = object_assign (assign_property k v b) d"
  by (simp add: object_assign_def)



lemma object_assign_keys:
  "fst ` set (object_assign b d) = fst ` set b \<union> (fst ` set d - {''__proto__''})"
proof (induction d arbitrary: b)
  case Nil
  show ?case by (simp add: object_assign_def)
next
  case (Cons p d)
  obtain k v where p: "p = (k, v)" by (cases p)
  show ?case
    unfolding p by (auto simp: object_assign_Cons Cons.IH assign_property_keys)
qed

lemma stringify_properties_lookup:
  "map_of (stringify_properties kvs) k = map_option JSON_stringify (map_of kvs k)"
  by (induction kvs) auto

lemma assign_if_truthy_lookup:
  "k' \<noteq> ''__proto__'' \<Longrightarrow>
   map_of (assign_if_truthy k' fv b) k =
     (if k = k' \<and> \<not> falsy_field fv then map_option target_json fv else map_of b k)"
  by (cases fv) (auto simp: assign_if_truthy_def assign_property_lookup)

lemma target_body_lookup:
  assumes "(k, fv) \<in> set (target_fields t)"
  shows "map_of (call_service_body (Some t) None) k =
           (if falsy_field fv then None else map_option target_json fv)"
  using assms
  by (auto simp: call_service_body_def target_fields_def assign_if_truthy_lookup)


lemma call_service_body_data:
  "call_service_body tgt (Some d) = object_assign (call_service_body tgt None) d"
  by (simp add: call_service_body_def Let_def)





text \<open>
  Claim C10. A target field that is absent or falsy contributes nothing to the merged
  body: its key is not in the body unless \<open>data\<close> defines it, and the body is the
  one obtained with the field removed from the target. When the merged body has no
  keys, the one request sent is a POST to the service's endpoint with no body.
\<close>

theorem call_service_falsy_target:
  "(\<forall>(k, fv) \<in> set (target_fields t).
      falsy_field fv \<and> (\<forall>d. data = Some d \<longrightarrow> k \<notin> fst ` set d) \<longrightarrow>
        k \<notin> fst ` set (call_service_body (Some t) data))
   \<and> (falsy_field (tgt_entity_id t) \<longrightarrow>
        call_service_body (Some t) data =
          call_service_body (Some (t\<lparr>tgt_entity_id := None\<rparr>)) data)
   \<and> (falsy_field (tgt_area_id t) \<longrightarrow>
        call_service_body (Some t) data =
          call_service_body (Some (t\<lparr>tgt_area_id := None\<rparr>)) data)
   \<and> (falsy_field (tgt_device_id t) \<longrightarrow>
        call_service_body (Some t) data =
          call_service_body (Some (t\<lparr>tgt_device_id := None\<rparr>)) data)
   \<and> (call_service_body tgt data = [] \<longrightarrow>
        fst (ha_call_service e domain service tgt data) =
          [\<lparr>req_url = HA_API_BASE @ ''/services/'' @ domain @ ''/'' @ service,
            req_method = ''POST'', req_headers = request_headers e, req_body = None,
            req_timeout = 30000\<rparr>])"
proof -
  have absent: "k \<notin> fst ` set (call_service_body (Some t) data)"
    if "(k, fv) \<in> set (target_fields t)" "falsy_field fv"
       "\<forall>d. data = Some d \<longrightarrow> k \<notin> fst ` set d" for k fv
  proof -
    have none: "map_of (call_service_body (Some t) None) k = None"
      using target_body_lookup[OF that(1)] that(2) by simp
    show ?thesis
    proof (cases data)
      case None
      then show ?thesis using none by (simp add: map_of_eq_None_iff)
    next
      case (Some d)
      then have "k \<notin> fst ` set d" using that(3) by simp
      then show ?thesis
        using none Some
        by (simp add: call_service_body_data object_assign_keys map_of_eq_None_iff)
    qed
  qed
  have same: "falsy_field fv \<Longrightarrow> assign_if_truthy k fv b = assign_if_truthy k None b" for k fv b
    by (cases fv) (simp_all add: assign_if_truthy_def)
  have e1: "call_service_body (Some t) data =
          call_service_body (Some (t\<lparr>tgt_entity_id := None\<rparr>)) data"
    if "falsy_field (tgt_entity_id t)"
    using same[OF that] by (simp add: call_service_body_def)
  have e2: "call_service_body (Some t) data =
          call_service_body (Some (t\<lparr>tgt_area_id := None\<rparr>)) data"
    if "falsy_field (tgt_area_id t)"
    using same[OF that] by (simp add: call_service_body_def)
  have e3: "call_service_body (Some t) data =
          call_service_body (Some (t\<lparr>tgt_device_id := None\<rparr>)) data"
    if "falsy_field (tgt_device_id t)"
    using same[OF that] by (simp add: call_service_body_def)
  have sent: "fst (ha_call_service e domain service tgt data) =
          [\<lparr>req_url = HA_API_BASE @ ''/services/'' @ domain @ ''/'' @ service,
            req_method = ''POST'', req_headers = request_headers e, req_body = None,
            req_timeout = 30000\<rparr>]"
    if "call_service_body tgt data = []"
  proof -
    let ?call = "haApiRequest e (''/services/'' @ domain @ ''/'' @ service)
                   (call_service_options [])"
    have "fst (ha_call_service e domain service tgt data) = fst ?call"
      using that by (cases ?call) (auto simp: ha_call_service_def Let_def split: sum.splits)
    then show ?thesis
      by (simp add: haApiRequest_calls build_request_def call_service_options_def
          no_options_def sent_body_def the_method_def the_timeout_def)
  qed
  from absent e1 e2 e3 sent show ?thesis by blast
qed

theorem call_service_falsy_target_witness:
  "falsy_field (tgt_entity_id empty_target)
   \<and> ''entity_id'' \<notin> fst ` set (call_service_body (Some empty_target) None)
   \<and> call_service_body (Some empty_target) None = []
   \<and> fst (ha_call_service (answering json_response) ''light'' ''turn_on''
            (Some empty_target) None) =
       [\<lparr>req_url = ''http://supervisor/core/api/services/light/turn_on'',
         req_method = ''POST'', req_headers = request_headers (answering json_response),
         req_body = None, req_timeout = 30000\<rparr>]"
proof -
  have f: "falsy_field (tgt_entity_id empty_target)"
    by (simp add: empty_target_def)
  have b: "call_service_body (Some empty_target) None = []"
    by (simp add: call_service_body_def assign_if_truthy_def empty_target_def)
  show ?thesis
    using call_service_falsy_target[of empty_target None "Some empty_target"
        "answering json_response" "''light''" "''turn_on''"] f b
    by (simp add: target_fields_def HA_API_BASE_def)
qed

subsection \<open>ha_reload_config\<close>

text \<open>For a declared key the mapped endpoint is posted to, and a string that is
  neither a declared key nor a property of \<open>Object.prototype\<close> gets the handled
  answer without any request.\<close>

lemma reload_endpoints_nonempty: "(k, ep) \<in> set RELOAD_MAP \<Longrightarrow> ep \<noteq> []"
  by (auto simp: RELOAD_MAP_def)

lemma reload_config_declared:
  assumes "d \<in> fst ` set RELOAD_MAP"
  shows "\<exists>ep. map_of RELOAD_MAP d = Some ep
          \<and> fst (ha_reload_config e d) =
              [build_request HA_API_BASE e (''/services/'' @ ep)
                 (no_options\<lparr>opt_method := Some ''POST''\<rparr>)]
          \<and> (\<forall>result. snd (haApiRequest e (''/services/'' @ ep)
                             (no_options\<lparr>opt_method := Some ''POST''\<rparr>)) = Inr result
                \<longrightarrow> snd (ha_reload_config e d) = Inr (reloaded d))"
proof -
  from assms obtain ep where ep: "map_of RELOAD_MAP d = Some ep"
    by (cases "map_of RELOAD_MAP d") (auto simp: map_of_eq_None_iff)
  then have "ep \<noteq> []" using reload_endpoints_nonempty map_of_SomeD by fast
  let ?call = "haApiRequest e (''/services/'' @ ep) (no_options\<lparr>opt_method := Some ''POST''\<rparr>)"
  have run: "ha_reload_config e d =
          (case ?call of (calls, Inl err) \<Rightarrow> (calls, Inl err)
                       | (calls, Inr result) \<Rightarrow> (calls, Inr (reloaded d)))"
    using ep \<open>ep \<noteq> []\<close> by (simp add: ha_reload_config_def get_property_def)
  have "fst (ha_reload_config e d) = fst ?call"
    unfolding run by (cases ?call) (auto split: sum.splits)
  moreover have "snd (ha_reload_config e d) = Inr (reloaded d)" if "snd ?call = Inr result" for result
    unfolding run using that by (cases ?call) auto
  ultimately show ?thesis using ep by (auto simp: haApiRequest_calls)
qed

lemma reload_config_unknown:
  assumes "d \<notin> fst ` set RELOAD_MAP" and "d \<notin> fst ` set Object_prototype"
  shows "ha_reload_config e d = ([], Inr (unknown_domain d))"
proof -
  have "map_of RELOAD_MAP d = None" "map_of Object_prototype d = None"
    using assms by (simp_all add: map_of_eq_None_iff)
  then show ?thesis by (simp add: ha_reload_config_def get_property_def)
qed

text \<open>
  Claim C3, at the input \<open>constructor\<close>. It is not a key of the table, yet the
  lookup finds the inherited \<open>Object.prototype.constructor\<close>, which is truthy: the
  handler posts to \<open>/services/\<close> followed by the function's source text, and
  reports a successful reload when the upstream accepts the request.
\<close>

theorem reload_config_inherited:
  "''constructor'' \<notin> fst ` set RELOAD_MAP
   \<and> fst (ha_reload_config e ''constructor'') =
       [\<lparr>req_url = HA_API_BASE @ ''/services/function Object() { [native code] }'',
         req_method = ''POST'', req_headers = request_headers e, req_body = None,
         req_timeout = 30000\<rparr>]
   \<and> snd (ha_reload_config (answering rendered_response) ''constructor'') =
       Inr (reloaded ''constructor'')"
proof -
  have own: "''constructor'' \<notin> fst ` set RELOAD_MAP"
    by (simp add: RELOAD_MAP_def)
  have lookup: "get_property RELOAD_MAP ''constructor'' =
          ObjectValue ''function Object() { [native code] }''"
    by (simp add: get_property_def RELOAD_MAP_def Object_prototype_def)
  let ?call = "\<lambda>e. haApiRequest e ''/services/function Object() { [native code] }''
                (no_options\<lparr>opt_method := Some ''POST''\<rparr>)"
  have run: "ha_reload_config e ''constructor'' =
          (case ?call e of (calls, Inl err) \<Rightarrow> (calls, Inl err)
                       | (calls, Inr result) \<Rightarrow> (calls, Inr (reloaded ''constructor'')))" for e
    by (simp add: ha_reload_config_def lookup)
  have "fst (ha_reload_config e ''constructor'') = fst (?call e)"
    unfolding run by (cases "?call e") (auto split: sum.splits)
  then have calls: "fst (ha_reload_config e ''constructor'') =
       [\<lparr>req_url = HA_API_BASE @ ''/services/function Object() { [native code] }'',
         req_method = ''POST'', req_headers = request_headers e, req_body = None,
         req_timeout = 30000\<rparr>]"
    by (simp add: haApiRequest_calls build_request_def no_options_def sent_body_def
        the_method_def the_timeout_def)
  have "snd (?call (answering rendered_response)) = Inr (Text ''42'')"
    using rendered_not_json
    by (simp add: haApiRequest_def answering_def resp_ok_def read_text_def)
      (simp add: rendered_response_def)
  then have "snd (ha_reload_config (answering rendered_response) ''constructor'') =
       Inr (reloaded ''constructor'')"
    unfolding run by (cases "?call (answering rendered_response)") auto
  with own calls show ?thesis by simp
qed

subsection \<open>ha_get_logs\<close>

text \<open>For a positive whole number of lines the handler keeps the last ones, all of
  them when there are fewer.\<close>

lemma get_logs_returns:
  assumes "snd (supervisorApiRequest e ''/core/logs''
                  (no_options\<lparr>opt_rawResponse := Some True\<rparr>)) = Inr (Text logs)"
  shows "snd (ha_get_logs e ns lines_arg) = Inr (logs_text ns (the_lines lines_arg) logs)"
  using assms
  by (cases "supervisorApiRequest e ''/core/logs'' (no_options\<lparr>opt_rawResponse := Some True\<rparr>)")
    (simp add: ha_get_logs_def)

lemma last_lines_zero: "last_lines (Finite 0) logs = split_lines logs"
  by (simp add: last_lines_def slice_def trunc_def)

lemma last_lines_positive:
  assumes "0 < n"
  shows "last_lines (Finite (of_nat n)) logs =
           drop (length (split_lines logs) - n) (split_lines logs)"
proof -
  have "trunc (- of_nat n) = - int n"
    using trunc_of_int[of "- int n"] by simp
  moreover have "nat (max (int len - int n) 0) = len - n" for len
    by linarith
  ultimately show ?thesis
    using assms by (simp add: last_lines_def slice_def)
qed

lemma log_answer:
  "snd (supervisorApiRequest (answering log_response) ''/core/logs''
          (no_options\<lparr>opt_rawResponse := Some True\<rparr>)) =
     Inr (Text (''first'' @ newline @ ''second'' @ newline @ ''third''))"
  by (simp add: supervisorApiRequest_def answering_def log_response_def resp_ok_def
      the_rawResponse_def no_options_def read_text_def)

text \<open>
  Claim C7, at the input \<open>lines = 0\<close>. \<open>slice(-0)\<close> is \<open>slice(0)\<close>: of a log
  of three lines, all three are returned under the heading for the last 0 lines.
\<close>

theorem get_logs_zero_lines:
  "snd (ha_get_logs (answering log_response) ns (Some (Finite 0))) =
     Inr (''Home Assistant logs (last '' @ ns 0 @ '' lines):'' @ newline @ newline
          @ ''first'' @ newline @ ''second'' @ newline @ ''third'')"
proof -
  have "split_lines (''first'' @ newline @ ''second'' @ newline @ ''third'') =
          [''first'', ''second'', ''third'']"
    by (simp add: newline_def)
  then show ?thesis
    using get_logs_returns[OF log_answer, of ns "Some (Finite 0)"]
    by (simp add: the_lines_def logs_text_def last_lines_zero)
qed

subsection \<open>ha_render_template\<close>

text \<open>
  Claim C9, as amended. When the upstream answers the template request with a
  success status, a content type that does not declare JSON and the text \<open>r\<close>, the
  handler has posted \<open>{template: t}\<close> and returns the fixed heading
  \<open>Template result:\<close>, an empty line and then exactly \<open>r\<close>; an empty \<open>r\<close> is
  not treated apart.
\<close>

theorem render_template_returns:
  assumes "fetch e (build_request HA_API_BASE e ''/template'' (template_options t)) = Response resp"
      and "resp_ok resp"
      and "\<not> declares_json resp"
      and "resp_text resp = Some r"
  shows "ha_render_template e ns t =
           ([build_request HA_API_BASE e ''/template'' (template_options t)],
            Inr (''Template result:'' @ newline @ newline @ r))
       \<and> req_body (build_request HA_API_BASE e ''/template'' (template_options t)) =
           Some (JObj [(''template'', JStr t)])"
  using assms
  by (simp add: ha_render_template_def haApiRequest_def Let_def read_text_def
      build_request_def template_options_def no_options_def sent_body_def)

theorem render_template_returns_witness:
  "resp_ok rendered_response \<and> \<not> declares_json rendered_response
   \<and> snd (ha_render_template (answering rendered_response) no_digits ''{{ 6 * 7 }}'') =
       Inr (''Template result:'' @ newline @ newline @ ''42'')"
proof -
  have f: "fetch (answering rendered_response)
             (build_request HA_API_BASE (answering rendered_response) ''/template''
                (template_options ''{{ 6 * 7 }}'')) = Response rendered_response"
    by (simp add: answering_def)
  have ok: "resp_ok rendered_response"
    by (simp add: resp_ok_def rendered_response_def)
  have nj: "\<not> declares_json rendered_response"
    by (rule rendered_not_json)
  have tx: "resp_text rendered_response = Some ''42''"
    by (simp add: rendered_response_def)
  show ?thesis
    using render_template_returns[OF f ok nj tx, of no_digits] ok nj by simp
qed

text \<open>The claim as stated fails: the text returned for the rendering \<open>42\<close> is not
  \<open>42\<close> but the heading followed by it.\<close>

theorem render_template_counterexample:
  "resp_text rendered_response = Some ''42''
   \<and> snd (ha_render_template (answering rendered_response) no_digits ''{{ 6 * 7 }}'') =
       Inr (''Template result:'' @ newline @ newline @ ''42'')
   \<and> snd (ha_render_template (answering rendered_response) no_digits ''{{ 6 * 7 }}'') \<noteq>
       Inr ''42''"
  using rendered_not_json
  by (simp add: ha_render_template_def haApiRequest_def Let_def read_text_def
      answering_def resp_ok_def newline_def)
    (simp add: rendered_response_def)

end
